theory Spec2Isabelle
  imports Complex_Main "HOL-Library.Word"
begin

section \<open>The HiOCR JNI bridge (native-lib.cpp)\<close>

text \<open>
  The bridge consists of four JNI entry points: \<open>destroyNativeAnalyzer\<close>,
  \<open>createNativeAnalyzer\<close>, \<open>analyzeTextDataNative\<close> and \<open>decryptionDataNative\<close>.
  Everything they do is an effect on one of two worlds: the Java side (local references,
  the pending exception, the objects of the array) and the native side (heap copies of
  \<open>HiTextInfo\<close>, the engine behind the handle).  The embedding threads an explicit
  state through each function and records every call that crosses the boundary in a trace.
\<close>

subsection \<open>Native data\<close>

type_synonym jlong = "64 word"

text \<open>
  \<open>HiRect\<close> holds four doubles.  The bridge only copies them, so the type of a double is
  left as the parameter \<open>'d\<close>.
\<close>

record 'd HiRect =
  rect_x :: 'd
  rect_y :: 'd
  rect_width :: 'd
  rect_height :: 'd

record 'd HiTextInfo =
  info_text :: string
  info_bbox :: "'d HiRect"

subsection \<open>The Java side\<close>

text \<open>
  \<open>CallObjectMethod\<close> either raises a Java exception (the returned value is then not
  meaningful) or returns a reference, which may be null.
\<close>

datatype 'a jcall = JThrows | JReturns "'a option"

text \<open>
  A Java \<open>HiTextInfo\<close> object is what its two accessors answer.  The rectangle object
  that \<open>getBBox\<close> returns is represented by the values of its four double fields.
\<close>

record 'd JTextInfo =
  getBBox :: "'d HiRect jcall"
  getText :: "string jcall"

text \<open>A \<open>jobjectArray\<close>: a null reference, or an array whose elements may be null.\<close>

type_synonym 'd jobjectArray = "'d JTextInfo option list option"

text \<open>Local references handed out by the JNI during one native call.\<close>

datatype jref = ClassRef string | ElemRef nat | BBoxRef nat | TextRef nat

subsection \<open>The native engine and the lookups of the JNI environment\<close>

text \<open>
  \<open>HiOCRAnalyzer\<close> is declared outside the bridge; its constructor and its two methods
  are parameters.  A C++ call either returns or throws.  \<open>newAnalyzer\<close> is the
  expression \<open>new HiOCRAnalyzer(scanType, licenseKeyStr)\<close>: the address of the new
  object, or \<open>None\<close> when the allocation or the constructor throws.

  The JNI environment decides which lookups succeed: \<open>classFound\<close> for \<open>FindClass\<close>,
  \<open>methodFound\<close> for \<open>GetMethodID\<close> and \<open>fieldFound\<close> for \<open>GetFieldID\<close> (class,
  name, signature), and \<open>stringChars\<close> for \<open>GetStringUTFChars\<close> on the string that
  \<open>getText\<close> returned (by its content).
\<close>

datatype engine_result = EngineReturns string | EngineThrows

record 'd world =
  classFound :: "string \<Rightarrow> bool"
  methodFound :: "string \<Rightarrow> string \<Rightarrow> string \<Rightarrow> bool"
  fieldFound :: "string \<Rightarrow> string \<Rightarrow> string \<Rightarrow> bool"
  stringChars :: "string \<Rightarrow> bool"
  newAnalyzer :: "jlong \<Rightarrow> string \<Rightarrow> jlong option"
  analyzeTextData :: "jlong \<Rightarrow> 'd HiTextInfo option list \<Rightarrow> engine_result"
  decryptionData :: "jlong \<Rightarrow> string \<Rightarrow> engine_result"

subsection \<open>Events and state\<close>

datatype 'd event =
    EvCerr string
  | EvCerrIndex string nat
  | EvFindClass string
  | EvGetMethodID string string
  | EvExceptionDescribe
  | EvExceptionClear
  | EvGetArrayLength
  | EvGetObjectArrayElement nat
  | EvCallObjectMethod jref string
  | EvGetStringUTFChars string
  | EvReleaseStringUTFChars string
  | EvGetFieldID string string
  | EvGetDoubleField jref string
  | EvDeleteLocalRef jref
  | EvNewStringUTF string
  | EvNewTextInfo nat "'d HiTextInfo"
  | EvDeleteTextInfo nat
  | EvAnalyzeTextData jlong "'d HiTextInfo option list"
  | EvDecryptionData jlong string
  | EvNewAnalyzer jlong string
  | EvDeleteAnalyzer jlong

text \<open>
  \<open>pending\<close>: a Java exception is pending.  \<open>locals\<close>: the live local references.
  \<open>heap\<close>: the \<open>HiTextInfo\<close> copies made with \<open>new\<close> in this call and not yet deleted;
  the k-th allocation of a call gets address k, counted by \<open>allocs\<close>.
  \<open>textPointers\<close>: the vector of line 67.
\<close>

record 'd state =
  pending :: bool
  locals :: "jref list"
  heap :: "nat \<Rightarrow> 'd HiTextInfo option"
  allocs :: nat
  textPointers :: "nat list"
  trace :: "'d event list"

definition init :: "'d state" where
  "init = \<lparr>pending = False, locals = [], heap = (\<lambda>p. None), allocs = 0,
           textPointers = [], trace = []\<rparr>"

text \<open>
  How a native function ends: it returns, a C++ exception leaves it, or its behaviour is
  undefined: it has passed a null reference to \<open>GetStringUTFChars\<close>, a null field
  identifier to \<open>GetDoubleField\<close>, or a null pointer to the constructor of
  \<open>std::string\<close>.
\<close>

datatype 'a outcome = Returns 'a | CppException | UndefinedBehaviour

text \<open>
  How far a part of \<open>analyzeTextDataNative\<close> gets, and in which state: it goes on to the
  next statement, it has executed \<open>return NULL\<close>, or its behaviour has become undefined.
\<close>

datatype 'd progress =
    is_Proceeds: Proceeds (state_of: "'d state")
  | is_ReturnsNull: ReturnsNull (state_of: "'d state")
  | is_Undefined: Undefined (state_of: "'d state")

definition and_then :: "'d progress \<Rightarrow> ('d state \<Rightarrow> 'd progress) \<Rightarrow> 'd progress" where
  "and_then p f =
     (case p of Proceeds s \<Rightarrow> f s | ReturnsNull s \<Rightarrow> ReturnsNull s | Undefined s \<Rightarrow> Undefined s)"

subsection \<open>JNI and C++ primitives\<close>

text \<open>
  The JNI calls of the extraction that can fail: \<open>FindClass\<close>, \<open>GetMethodID\<close> and
  \<open>GetFieldID\<close> answer null and raise a Java exception, \<open>CallObjectMethod\<close> raises the
  exception of the Java method, \<open>GetStringUTFChars\<close> answers null and raises
  \<open>OutOfMemoryError\<close>.  \<open>GetDoubleField\<close> with a field identifier that is not null
  answers the value of the field; with a null identifier its behaviour is undefined.
  Allocation with \<open>new\<close> is taken to succeed inside the loop.  The string argument of
  \<open>createNativeAnalyzer\<close> and of \<open>decryptionDataNative\<close> is given by its characters.
\<close>

definition emit :: "'d event \<Rightarrow> 'd state \<Rightarrow> 'd state" where
  "emit e s = s\<lparr>trace := trace s @ [e]\<rparr>"

definition jni_ExceptionCheck :: "'d state \<Rightarrow> bool" where
  "jni_ExceptionCheck s = pending s"

definition jni_ExceptionDescribe :: "'d state \<Rightarrow> 'd state" where
  "jni_ExceptionDescribe s = emit EvExceptionDescribe s"

definition jni_ExceptionClear :: "'d state \<Rightarrow> 'd state" where
  "jni_ExceptionClear s = emit EvExceptionClear (s\<lparr>pending := False\<rparr>)"

definition jni_DeleteLocalRef :: "jref \<Rightarrow> 'd state \<Rightarrow> 'd state" where
  "jni_DeleteLocalRef r s = emit (EvDeleteLocalRef r) (s\<lparr>locals := removeAll r (locals s)\<rparr>)"

text \<open>\<open>FindClass\<close> answers a new local reference, or null with an exception pending.\<close>

definition jni_FindClass :: "'d world \<Rightarrow> string \<Rightarrow> 'd state \<Rightarrow> bool \<times> 'd state" where
  "jni_FindClass w name s =
     (let s' = emit (EvFindClass name) s in
      if classFound w name then (True, s'\<lparr>locals := locals s' @ [ClassRef name]\<rparr>)
      else (False, s'\<lparr>pending := True\<rparr>))"

text \<open>\<open>GetMethodID\<close> answers a method identifier, or null with an exception pending.\<close>

definition jni_GetMethodID ::
  "'d world \<Rightarrow> string \<Rightarrow> string \<Rightarrow> string \<Rightarrow> 'd state \<Rightarrow> bool \<times> 'd state" where
  "jni_GetMethodID w cls name sig s =
     (let s' = emit (EvGetMethodID name sig) s in
      if methodFound w cls name sig then (True, s') else (False, s'\<lparr>pending := True\<rparr>))"

text \<open>\<open>GetFieldID\<close> answers a field identifier, or null with an exception pending.\<close>

definition jni_GetFieldID ::
  "'d world \<Rightarrow> string \<Rightarrow> string \<Rightarrow> string \<Rightarrow> 'd state \<Rightarrow> bool \<times> 'd state" where
  "jni_GetFieldID w cls name sig s =
     (let s' = emit (EvGetFieldID name sig) s in
      if fieldFound w cls name sig then (True, s') else (False, s'\<lparr>pending := True\<rparr>))"

text \<open>\<open>GetStringUTFChars\<close> answers the characters, or null with an exception pending.\<close>

definition jni_GetStringUTFChars :: "'d world \<Rightarrow> string \<Rightarrow> 'd state \<Rightarrow> string option \<times> 'd state" where
  "jni_GetStringUTFChars w str s =
     (let s' = emit (EvGetStringUTFChars str) s in
      if stringChars w str then (Some str, s') else (None, s'\<lparr>pending := True\<rparr>))"

text \<open>
  \<open>NewStringUTF(result.c_str())\<close>: the new Java string holds the characters before the
  first NUL of the C++ string.
\<close>

definition c_str :: "string \<Rightarrow> string" where
  "c_str str = takeWhile (\<lambda>c. c \<noteq> CHR 0x00) str"

text \<open>
  \<open>CallObjectMethod\<close> on receiver \<open>recv\<close>; \<open>res\<close> is what the Java method does and \<open>r\<close>
  the local reference created when it returns an object.
\<close>

definition jni_CallObjectMethod ::
  "jref \<Rightarrow> string \<Rightarrow> 'a jcall \<Rightarrow> jref \<Rightarrow> 'd state \<Rightarrow> 'a option \<times> 'd state" where
  "jni_CallObjectMethod recv name res r s =
     (let s' = emit (EvCallObjectMethod recv name) s in
      case res of
        JThrows \<Rightarrow> (None, s'\<lparr>pending := True\<rparr>)
      | JReturns None \<Rightarrow> (None, s')
      | JReturns (Some v) \<Rightarrow> (Some v, s'\<lparr>locals := locals s' @ [r]\<rparr>))"

definition new_HiTextInfo :: "'d HiTextInfo \<Rightarrow> 'd state \<Rightarrow> nat \<times> 'd state" where
  "new_HiTextInfo v s =
     (allocs s,
      emit (EvNewTextInfo (allocs s) v)
        (s\<lparr>heap := (heap s)(allocs s := Some v), allocs := Suc (allocs s)\<rparr>))"

definition push_back :: "nat \<Rightarrow> 'd state \<Rightarrow> 'd state" where
  "push_back p s = s\<lparr>textPointers := textPointers s @ [p]\<rparr>"

definition delete_HiTextInfo :: "nat \<Rightarrow> 'd state \<Rightarrow> 'd state" where
  "delete_HiTextInfo p s = emit (EvDeleteTextInfo p) (s\<lparr>heap := (heap s)(p := None)\<rparr>)"

subsection \<open>destroyNativeAnalyzer (lines 18-26)\<close>

definition destroyNativeAnalyzer :: "jlong \<Rightarrow> 'd state" where
  "destroyNativeAnalyzer handle =
     (if handle = 0 then emit (EvCerr ''Handle is null'') init
      else emit (EvDeleteAnalyzer handle) init)"

subsection \<open>createNativeAnalyzer (lines 28-35)\<close>


subsection \<open>analyzeTextDataNative (lines 37-119)\<close>

text \<open>The class names of lines 51-52.\<close>

definition HiTextInfo_class :: string where
  "HiTextInfo_class = ''com/mwkg/hiocr/HiTextInfo''"

definition HiRect_class :: string where
  "HiRect_class = ''com/mwkg/hiocr/HiRect''"

text \<open>The two skip branches of the loop body (lines 78-81 and 86-90).\<close>

definition skip_after_getBBox :: "nat \<Rightarrow> 'd state \<Rightarrow> 'd state" where
  "skip_after_getBBox i s =
     jni_DeleteLocalRef (ElemRef i) (jni_ExceptionClear (jni_ExceptionDescribe s))"

definition skip_after_getText :: "nat \<Rightarrow> 'd state \<Rightarrow> 'd state" where
  "skip_after_getText i s =
     jni_DeleteLocalRef (BBoxRef i)
       (jni_DeleteLocalRef (ElemRef i) (jni_ExceptionClear (jni_ExceptionDescribe s)))"

text \<open>
  One of the lines 94-97: \<open>GetDoubleField(bboxObj, GetFieldID(hiRectClass, name, "D"))\<close>.
  The result of \<open>GetFieldID\<close> is not checked.
\<close>

definition read_double :: "'d world \<Rightarrow> nat \<Rightarrow> string \<Rightarrow> 'd state \<Rightarrow> 'd progress" where
  "read_double w i name s =
     (let (fieldID, s1) = jni_GetFieldID w HiRect_class name ''D'' s
      in if fieldID then Proceeds (emit (EvGetDoubleField (BBoxRef i) name) s1)
         else Undefined s1)"

text \<open>
  Lines 93-106: get the characters of the text, read the four fields, allocate the copy,
  append it, release.  The result of \<open>GetStringUTFChars\<close> is not checked either: line 101
  builds a \<open>std::string\<close> from it, null or not.
\<close>

definition copy_element ::
  "'d world \<Rightarrow> nat \<Rightarrow> 'd HiRect \<Rightarrow> string \<Rightarrow> 'd state \<Rightarrow> 'd progress" where
  "copy_element w i bboxObj text s =
     (let (textChars, s1) = jni_GetStringUTFChars w text s in
      and_then (read_double w i ''x'' s1) (\<lambda>s2.
      and_then (read_double w i ''y'' s2) (\<lambda>s3.
      and_then (read_double w i ''width'' s3) (\<lambda>s4.
      and_then (read_double w i ''height'' s4) (\<lambda>s5.
        case textChars of
          None \<Rightarrow> Undefined s5
        | Some chars \<Rightarrow>
            (let rect = \<lparr>rect_x = rect_x bboxObj, rect_y = rect_y bboxObj,
                          rect_width = rect_width bboxObj, rect_height = rect_height bboxObj\<rparr>;
                 (textInfo, s6) = new_HiTextInfo \<lparr>info_text = chars, info_bbox = rect\<rparr> s5;
                 s7 = push_back textInfo s6;
                 s8 = emit (EvReleaseStringUTFChars text) s7
             in Proceeds (jni_DeleteLocalRef (BBoxRef i) (jni_DeleteLocalRef (ElemRef i) s8))))))))"

text \<open>One iteration of the loop of lines 69-107, for index \<open>i\<close> and the element there.\<close>

definition extract_element ::
  "'d world \<Rightarrow> nat \<Rightarrow> 'd JTextInfo option \<Rightarrow> 'd state \<Rightarrow> 'd progress" where
  "extract_element w i hiTextInfoObj s =
     (let s1 = emit (EvGetObjectArrayElement i) s in
      case hiTextInfoObj of
        None \<Rightarrow>
          Proceeds (emit (EvCerrIndex ''Failed to retrieve HiTextInfo object at index '' i) s1)
      | Some obj \<Rightarrow>
          (let s2 = s1\<lparr>locals := locals s1 @ [ElemRef i]\<rparr>;
               (bboxObj, s3) =
                 jni_CallObjectMethod (ElemRef i) ''getBBox'' (getBBox obj) (BBoxRef i) s2
           in case bboxObj of
                None \<Rightarrow> Proceeds (skip_after_getBBox i s3)
              | Some rect \<Rightarrow>
                  if jni_ExceptionCheck s3 then Proceeds (skip_after_getBBox i s3)
                  else
                    (let (text, s4) =
                       jni_CallObjectMethod (ElemRef i) ''getText'' (getText obj) (TextRef i) s3
                     in case text of
                          None \<Rightarrow> Proceeds (skip_after_getText i s4)
                        | Some str \<Rightarrow>
                            if jni_ExceptionCheck s4 then Proceeds (skip_after_getText i s4)
                            else copy_element w i rect str s4)))"

fun extract_loop ::
  "'d world \<Rightarrow> nat \<Rightarrow> 'd JTextInfo option list \<Rightarrow> 'd state \<Rightarrow> 'd progress" where
  "extract_loop w i [] s = Proceeds s"
| "extract_loop w i (hiTextInfoObj # rest) s =
     and_then (extract_element w i hiTextInfoObj s) (extract_loop w (Suc i) rest)"

text \<open>The clean-up loop of lines 114-116.\<close>

fun delete_loop :: "nat list \<Rightarrow> 'd state \<Rightarrow> 'd state" where
  "delete_loop [] s = s"
| "delete_loop (textInfo # rest) s = delete_loop rest (delete_HiTextInfo textInfo s)"

text \<open>
  Lines 42-107: the checks, the lookups and the extraction.  \<open>ReturnsNull s\<close>: the
  function has returned \<open>NULL\<close> in state \<open>s\<close>; \<open>Proceeds s\<close>: line 109 is reached in
  state \<open>s\<close>; \<open>Undefined s\<close>: an unchecked read of lines 93-97 has failed.
\<close>

definition analyze_marshal ::
  "'d world \<Rightarrow> jlong \<Rightarrow> 'd jobjectArray \<Rightarrow> 'd progress" where
  "analyze_marshal w handle textInfoArray =
     (if handle = 0 then ReturnsNull (emit (EvCerr ''Handle is null'') init)
      else case textInfoArray of
        None \<Rightarrow> ReturnsNull (emit (EvCerr ''Array is null'') init)
      | Some elems \<Rightarrow>
          (let (hiTextInfoClass, s1) = jni_FindClass w HiTextInfo_class init;
               (hiRectClass, s2) = jni_FindClass w HiRect_class s1
           in if \<not> hiTextInfoClass \<or> \<not> hiRectClass \<or> jni_ExceptionCheck s2
              then ReturnsNull (jni_ExceptionClear (jni_ExceptionDescribe s2))
              else
                (let (getTextMethod, s3) =
                       jni_GetMethodID w HiTextInfo_class ''getText'' ''()Ljava/lang/String;'' s2;
                     (getBBoxMethod, s4) =
                       jni_GetMethodID w HiTextInfo_class ''getBBox''
                         ''()Lcom/mwkg/hiocr/HiRect;'' s3
                 in if \<not> getTextMethod \<or> \<not> getBBoxMethod
                    then ReturnsNull (emit (EvCerr ''Method ID is null'') s4)
                    else extract_loop w 0 elems (emit EvGetArrayLength s4))))"

text \<open>The vector as the engine reads it: what each pointer points to.\<close>

definition batch :: "'d state \<Rightarrow> 'd HiTextInfo option list" where
  "batch s = map (heap s) (textPointers s)"

definition analyzeTextDataNative ::
  "'d world \<Rightarrow> jlong \<Rightarrow> 'd jobjectArray \<Rightarrow> string option outcome \<times> 'd state" where
  "analyzeTextDataNative w handle textInfoArray =
     (case analyze_marshal w handle textInfoArray of
        ReturnsNull s \<Rightarrow> (Returns None, s)
      | Undefined s \<Rightarrow> (UndefinedBehaviour, s)
      | Proceeds s \<Rightarrow>
          (let s1 = emit (EvAnalyzeTextData handle (batch s)) s
           in case analyzeTextData w handle (batch s) of
                EngineThrows \<Rightarrow> (CppException, s1)
              | EngineReturns result \<Rightarrow>
                  (Returns (Some (c_str result)),
                   emit (EvNewStringUTF (c_str result)) (delete_loop (textPointers s1) s1))))"

subsection \<open>decryptionDataNative (lines 121-136)\<close>

definition decryptionDataNative ::
  "'d world \<Rightarrow> jlong \<Rightarrow> string option \<Rightarrow> string option outcome \<times> 'd state" where
  "decryptionDataNative w handle input =
     (if handle = 0 then (Returns None, emit (EvCerr ''Handle is null'') init)
      else case input of
        None \<Rightarrow> (UndefinedBehaviour, init)
      | Some inputStr \<Rightarrow>
          (let s1 = emit (EvGetStringUTFChars inputStr) init;
               s2 = emit (EvReleaseStringUTFChars inputStr) s1;
               s3 = emit (EvDecryptionData handle inputStr) s2
           in case decryptionData w handle inputStr of
                EngineThrows \<Rightarrow> (CppException, s3)
              | EngineReturns decrypted \<Rightarrow>
                  (Returns (Some (c_str decrypted)), emit (EvNewStringUTF (c_str decrypted)) s3)))"

section \<open>Vocabulary of the properties\<close>

subsection \<open>Well-formed elements and their native copies\<close>

fun returned :: "'a jcall \<Rightarrow> 'a option" where
  "returned JThrows = None"
| "returned (JReturns v) = v"

text \<open>
  Well-formed: the element is not null, both accessors return, and neither returns null.
\<close>

fun wellformed :: "'d JTextInfo option \<Rightarrow> bool" where
  "wellformed None = False"
| "wellformed (Some obj) = (returned (getBBox obj) \<noteq> None \<and> returned (getText obj) \<noteq> None)"

text \<open>
  The record that the extractor is specified to produce for an element: the text and the
  four fields of a well-formed element, nothing for any other element.
\<close>

fun native_copy :: "'d JTextInfo option \<Rightarrow> 'd HiTextInfo option" where
  "native_copy None = None"
| "native_copy (Some obj) =
     (case returned (getBBox obj) of
        None \<Rightarrow> None
      | Some rect \<Rightarrow>
          (case returned (getText obj) of
             None \<Rightarrow> None
           | Some t \<Rightarrow> Some \<lparr>info_text = t, info_bbox = rect\<rparr>))"


text \<open>The sequence handed to the engine, when line 109 is reached.\<close>

definition extracted ::
  "'d world \<Rightarrow> jlong \<Rightarrow> 'd jobjectArray \<Rightarrow> 'd HiTextInfo option list option" where
  "extracted w handle textInfoArray =
     (case analyze_marshal w handle textInfoArray of
        Proceeds s \<Rightarrow> Some (batch s)
      | ReturnsNull s \<Rightarrow> None
      | Undefined s \<Rightarrow> None)"

definition lookups_ok :: "'d world \<Rightarrow> bool" where
  "lookups_ok w =
     (classFound w HiTextInfo_class \<and> classFound w HiRect_class
      \<and> methodFound w HiTextInfo_class ''getText'' ''()Ljava/lang/String;''
      \<and> methodFound w HiTextInfo_class ''getBBox'' ''()Lcom/mwkg/hiocr/HiRect;'')"

text \<open>
  The unchecked reads of lines 93-97 succeed for an element: the four field lookups and
  the characters of its text.  Only an element that reaches line 93 makes these reads.
\<close>

definition fields_ok :: "'d world \<Rightarrow> bool" where
  "fields_ok w =
     (fieldFound w HiRect_class ''x'' ''D'' \<and> fieldFound w HiRect_class ''y'' ''D''
      \<and> fieldFound w HiRect_class ''width'' ''D'' \<and> fieldFound w HiRect_class ''height'' ''D'')"

definition reads_ok :: "'d world \<Rightarrow> 'd JTextInfo option \<Rightarrow> bool" where
  "reads_ok w el =
     (case native_copy el of
        None \<Rightarrow> True
      | Some r \<Rightarrow> fields_ok w \<and> stringChars w (info_text r))"

text \<open>The state in which the loop of line 69 starts, after four successful lookups.\<close>

definition loop_start :: "'d state" where
  "loop_start =
     init\<lparr>locals := [ClassRef HiTextInfo_class, ClassRef HiRect_class],
          trace := [EvFindClass HiTextInfo_class, EvFindClass HiRect_class,
                    EvGetMethodID ''getText'' ''()Ljava/lang/String;'',
                    EvGetMethodID ''getBBox'' ''()Lcom/mwkg/hiocr/HiRect;'', EvGetArrayLength]\<rparr>"

text \<open>
  The state at line 93 of an iteration that started in \<open>s\<close>: the element, its rectangle
  and its text have been retrieved.
\<close>

definition at_line_93 :: "nat \<Rightarrow> 'd state \<Rightarrow> 'd state" where
  "at_line_93 i s =
     s\<lparr>trace := trace s @ [EvGetObjectArrayElement i,
            EvCallObjectMethod (ElemRef i) ''getBBox'',
            EvCallObjectMethod (ElemRef i) ''getText''],
       locals := locals s @ [ElemRef i, BBoxRef i, TextRef i]\<rparr>"

subsection \<open>Reading a trace\<close>

definition is_engine_call :: "'d event \<Rightarrow> bool" where
  "is_engine_call e =
     (case e of EvAnalyzeTextData h b \<Rightarrow> True | EvDecryptionData h i \<Rightarrow> True | _ \<Rightarrow> False)"

definition engine_calls :: "'d event list \<Rightarrow> 'd event list" where
  "engine_calls t = filter is_engine_call t"

definition is_extraction :: "'d event \<Rightarrow> bool" where
  "is_extraction e =
     (case e of
        EvGetArrayLength \<Rightarrow> True
      | EvGetObjectArrayElement i \<Rightarrow> True
      | EvCallObjectMethod r m \<Rightarrow> True
      | EvGetFieldID n g \<Rightarrow> True
      | EvGetDoubleField r n \<Rightarrow> True
      | EvNewTextInfo p v \<Rightarrow> True
      | _ \<Rightarrow> False)"

definition extraction_events :: "'d event list \<Rightarrow> 'd event list" where
  "extraction_events t = filter is_extraction t"

definition is_engine_release :: "'d event \<Rightarrow> bool" where
  "is_engine_release e = (case e of EvDeleteAnalyzer h \<Rightarrow> True | _ \<Rightarrow> False)"

definition engine_releases :: "'d event list \<Rightarrow> 'd event list" where
  "engine_releases t = filter is_engine_release t"

text \<open>Addresses allocated, addresses deleted, batches given to \<open>analyzeTextData\<close>,
  and engines constructed, each in the order of the trace.\<close>

definition created_of :: "'d event \<Rightarrow> nat list" where
  "created_of e = (case e of EvNewTextInfo p v \<Rightarrow> [p] | _ \<Rightarrow> [])"

definition created :: "'d event list \<Rightarrow> nat list" where
  "created t = concat (map created_of t)"

definition deleted_of :: "'d event \<Rightarrow> nat list" where
  "deleted_of e = (case e of EvDeleteTextInfo p \<Rightarrow> [p] | _ \<Rightarrow> [])"

definition deleted :: "'d event list \<Rightarrow> nat list" where
  "deleted t = concat (map deleted_of t)"

definition batch_of :: "'d event \<Rightarrow> 'd HiTextInfo option list list" where
  "batch_of e = (case e of EvAnalyzeTextData h b \<Rightarrow> [b] | _ \<Rightarrow> [])"

definition analysis_batches :: "'d event list \<Rightarrow> 'd HiTextInfo option list list" where
  "analysis_batches t = concat (map batch_of t)"



subsection \<open>The invariant of the extraction loop\<close>

text \<open>
  No exception is pending; the vector holds exactly the addresses allocated so far, all
  below the allocation counter; and only these addresses are live.
\<close>

definition owns :: "'d state \<Rightarrow> bool" where
  "owns s \<longleftrightarrow>
     \<not> pending s \<and> created (trace s) = textPointers s
     \<and> (\<forall>p \<in> set (textPointers s). p < allocs s)
     \<and> (\<forall>p. heap s p \<noteq> None \<longrightarrow> p \<in> set (textPointers s))"

subsection \<open>Concrete worlds and elements\<close>

definition world_ok :: "real world" where
  "world_ok = \<lparr>classFound = (\<lambda>c. True), methodFound = (\<lambda>c m g. True),
     fieldFound = (\<lambda>c n g. True), stringChars = (\<lambda>t. True),
     newAnalyzer = (\<lambda>t k. Some 4096),
     analyzeTextData = (\<lambda>h b. EngineReturns ''card''),
     decryptionData = (\<lambda>h i. EngineReturns i)\<rparr>"

definition world_no_rect_class :: "real world" where
  "world_no_rect_class = world_ok\<lparr>classFound := (\<lambda>c. c = HiTextInfo_class)\<rparr>"

definition world_no_field_x :: "real world" where
  "world_no_field_x = world_ok\<lparr>fieldFound := (\<lambda>c n g. n \<noteq> ''x'')\<rparr>"

definition world_no_chars :: "real world" where
  "world_no_chars = world_ok\<lparr>stringChars := (\<lambda>t. False)\<rparr>"

definition world_engine_throws :: "real world" where
  "world_engine_throws = world_ok\<lparr>analyzeTextData := (\<lambda>h b. EngineThrows)\<rparr>"

definition world_ctor_throws :: "real world" where
  "world_ctor_throws = world_ok\<lparr>newAnalyzer := (\<lambda>t k. None)\<rparr>"

definition box :: "real HiRect" where
  "box = \<lparr>rect_x = 1, rect_y = 2, rect_width = 30, rect_height = 4\<rparr>"

definition elem_ok :: "string \<Rightarrow> real JTextInfo" where
  "elem_ok t = \<lparr>getBBox = JReturns (Some box), getText = JReturns (Some t)\<rparr>"

definition elem_no_bbox :: "real JTextInfo" where
  "elem_no_bbox = \<lparr>getBBox = JReturns None, getText = JReturns (Some ''lost'')\<rparr>"

definition elem_text_throws :: "real JTextInfo" where
  "elem_text_throws = \<lparr>getBBox = JReturns (Some box), getText = JThrows\<rparr>"


section \<open>Lemmas\<close>

lemmas elem_defs = extract_element_def emit_def jni_ExceptionCheck_def jni_ExceptionDescribe_def
  jni_ExceptionClear_def jni_DeleteLocalRef_def jni_CallObjectMethod_def
  skip_after_getBBox_def skip_after_getText_def

lemmas copy_defs = copy_element_def read_double_def and_then_def jni_GetFieldID_def
  jni_GetStringUTFChars_def new_HiTextInfo_def push_back_def

lemmas lookup_defs = jni_FindClass_def jni_GetMethodID_def jni_ExceptionCheck_def
  jni_ExceptionDescribe_def jni_ExceptionClear_def emit_def

lemmas eval_defs = analyzeTextDataNative_def analyze_marshal_def extracted_def batch_def
  elem_defs copy_defs jni_FindClass_def jni_GetMethodID_def init_def Let_def
  HiTextInfo_class_def HiRect_class_def delete_HiTextInfo_def c_str_def

lemmas input_defs = world_ok_def world_no_rect_class_def world_no_field_x_def world_no_chars_def
  world_engine_throws_def world_ctor_throws_def box_def elem_ok_def elem_no_bbox_def
  elem_text_throws_def

lemmas trace_defs = is_engine_call_def engine_calls_def is_extraction_def extraction_events_def
  is_engine_release_def engine_releases_def

lemma wellformed_native_copy: "wellformed el \<longleftrightarrow> native_copy el \<noteq> None"
  by (cases el) (auto split: option.splits)

lemma created_simps [simp]:
  "created [] = []" "created (e # t) = created_of e @ created t"
  "created (t @ u) = created t @ created u"
  by (simp_all add: created_def)

lemma deleted_simps [simp]:
  "deleted [] = []" "deleted (e # t) = deleted_of e @ deleted t"
  "deleted (t @ u) = deleted t @ deleted u"
  by (simp_all add: deleted_def)

lemma analysis_batches_simps [simp]:
  "analysis_batches [] = []" "analysis_batches (e # t) = batch_of e @ analysis_batches t"
  "analysis_batches (t @ u) = analysis_batches t @ analysis_batches u"
  by (simp_all add: analysis_batches_def)

lemma and_then_Proceeds:
  "and_then p f = Proceeds s' \<longleftrightarrow> (\<exists>s1. p = Proceeds s1 \<and> f s1 = Proceeds s')"
  by (cases p) (simp_all add: and_then_def)

lemma and_then_simps [simp]:
  "and_then (Proceeds s) f = f s"
  "and_then (ReturnsNull s) f = ReturnsNull s"
  "and_then (Undefined s) f = Undefined s"
  by (simp_all add: and_then_def)

subsection \<open>Lines 93-106\<close>

lemma HiRect_copy [simp]:
  "\<lparr>rect_x = rect_x r, rect_y = rect_y r, rect_width = rect_width r,
    rect_height = rect_height r\<rparr> = (r :: 'd HiRect)"
  by (cases r) simp

lemma copy_element_reads_ok:
  assumes "fields_ok w" "stringChars w t"
  shows "copy_element w i r t s =
     Proceeds (s\<lparr>locals := removeAll (BBoxRef i) (removeAll (ElemRef i) (locals s)),
                 heap := (heap s)(allocs s := Some \<lparr>info_text = t, info_bbox = r\<rparr>),
                 allocs := Suc (allocs s),
                 textPointers := textPointers s @ [allocs s],
                 trace := trace s @ [EvGetStringUTFChars t,
                   EvGetFieldID ''x'' ''D'', EvGetDoubleField (BBoxRef i) ''x'',
                   EvGetFieldID ''y'' ''D'', EvGetDoubleField (BBoxRef i) ''y'',
                   EvGetFieldID ''width'' ''D'', EvGetDoubleField (BBoxRef i) ''width'',
                   EvGetFieldID ''height'' ''D'', EvGetDoubleField (BBoxRef i) ''height'',
                   EvNewTextInfo (allocs s) \<lparr>info_text = t, info_bbox = r\<rparr>,
                   EvReleaseStringUTFChars t,
                   EvDeleteLocalRef (ElemRef i), EvDeleteLocalRef (BBoxRef i)]\<rparr>)"
  using assms by (simp add: copy_defs jni_DeleteLocalRef_def emit_def fields_ok_def Let_def)

lemma copy_element_reads_fail:
  assumes "\<not> (fields_ok w \<and> stringChars w t)"
  shows "is_Undefined (copy_element w i r t s)"
    "pending (state_of (copy_element w i r t s))"
    "heap (state_of (copy_element w i r t s)) = heap s"
    "textPointers (state_of (copy_element w i r t s)) = textPointers s"
    "created (trace (state_of (copy_element w i r t s))) = created (trace s)"
    "deleted (trace (state_of (copy_element w i r t s))) = deleted (trace s)"
    "analysis_batches (trace (state_of (copy_element w i r t s))) = analysis_batches (trace s)"
  using assms
  by (auto simp: copy_defs jni_DeleteLocalRef_def emit_def fields_ok_def Let_def
      created_of_def deleted_of_def batch_of_def)

subsection \<open>One iteration\<close>

text \<open>An element has one of six shapes, one per path through the loop body.\<close>

lemma element_cases:
  obtains (null) "el = None"
  | (bbox_throws) obj where "el = Some obj" "getBBox obj = JThrows"
  | (bbox_null) obj where "el = Some obj" "getBBox obj = JReturns None"
  | (text_throws) obj rect where
      "el = Some obj" "getBBox obj = JReturns (Some rect)" "getText obj = JThrows"
  | (text_null) obj rect where
      "el = Some obj" "getBBox obj = JReturns (Some rect)" "getText obj = JReturns None"
  | (ok) obj rect t where
      "el = Some obj" "getBBox obj = JReturns (Some rect)" "getText obj = JReturns (Some t)"
proof (cases el)
  case None
  then show ?thesis by (rule null)
next
  case (Some obj)
  show ?thesis
  proof (cases "getBBox obj")
    case JThrows
    with Some show ?thesis by (rule bbox_throws)
  next
    case (JReturns b)
    show ?thesis
    proof (cases b)
      case None
      with Some JReturns show ?thesis by (auto intro: bbox_null)
    next
      case (Some rect)
      note r = Some
      show ?thesis
      proof (cases "getText obj")
        case JThrows
        with \<open>el = Some obj\<close> JReturns r show ?thesis by (auto intro: text_throws)
      next
        case (JReturns tx)
        then show ?thesis
          using \<open>el = Some obj\<close> \<open>getBBox obj = JReturns b\<close> r
          by (cases tx) (auto intro: text_null ok)
      qed
    qed
  qed
qed

text \<open>An element that is not well-formed is skipped, whatever the reads would do.\<close>

lemma extract_element_malformed:
  assumes "\<not> wellformed el" "\<not> pending s"
  shows "\<exists>s'. extract_element w i el s = Proceeds s' \<and> \<not> pending s'
           \<and> textPointers s' = textPointers s \<and> heap s' = heap s \<and> allocs s' = allocs s
           \<and> created (trace s') = created (trace s) \<and> deleted (trace s') = deleted (trace s)
           \<and> analysis_batches (trace s') = analysis_batches (trace s)"
  using assms
  by (cases el rule: element_cases)
     (simp_all add: elem_defs Let_def created_of_def deleted_of_def batch_of_def)

lemma at_line_93_simps [simp]:
  "pending (at_line_93 i s) = pending s" "heap (at_line_93 i s) = heap s"
  "allocs (at_line_93 i s) = allocs s" "textPointers (at_line_93 i s) = textPointers s"
  "created (trace (at_line_93 i s)) = created (trace s)"
  "deleted (trace (at_line_93 i s)) = deleted (trace s)"
  "analysis_batches (trace (at_line_93 i s)) = analysis_batches (trace s)"
  by (simp_all add: at_line_93_def created_of_def deleted_of_def batch_of_def)

text \<open>A well-formed element reaches line 93.\<close>

lemma extract_element_wellformed:
  assumes "wellformed el" "\<not> pending s"
  obtains rect t where "native_copy el = Some \<lparr>info_text = t, info_bbox = rect\<rparr>"
    "extract_element w i el s =
       copy_element w i rect t
         (at_line_93 i s)"
proof (cases el rule: element_cases)
  case (ok obj rect t)
  show ?thesis
  proof (rule that [of t rect])
    from ok show "native_copy el = Some \<lparr>info_text = t, info_bbox = rect\<rparr>"
      by simp
    from ok assms(2) show "extract_element w i el s =
       copy_element w i rect t
         (at_line_93 i s)"
      by (simp add: elem_defs Let_def at_line_93_def)
  qed
qed (use assms(1) in simp_all)

lemma extract_element_Proceeds:
  assumes "\<not> pending s" "extract_element w i el s = Proceeds s'"
  shows "\<not> pending s'
       \<and> textPointers s' = textPointers s @ (if wellformed el then [allocs s] else [])
       \<and> heap s' = (if wellformed el then (heap s)(allocs s := native_copy el) else heap s)
       \<and> allocs s' = (if wellformed el then Suc (allocs s) else allocs s)
       \<and> created (trace s') = created (trace s) @ (if wellformed el then [allocs s] else [])
       \<and> deleted (trace s') = deleted (trace s)
       \<and> analysis_batches (trace s') = analysis_batches (trace s)"
proof (cases "wellformed el")
  case False
  with assms extract_element_malformed [OF False assms(1), of w i] show ?thesis by auto
next
  case True
  from True assms(1) obtain rect t where
    nc: "native_copy el = Some \<lparr>info_text = t, info_bbox = rect\<rparr>"
    and ee: "extract_element w i el s =
       copy_element w i rect t
         (at_line_93 i s)"
    by (rule extract_element_wellformed)
  show ?thesis
  proof (cases "fields_ok w \<and> stringChars w t")
    case ok: True
    with assms ee nc True show ?thesis
      by (auto simp: copy_element_reads_ok created_of_def deleted_of_def batch_of_def)
  next
    case False
    from copy_element_reads_fail(1) [OF False] assms(2) ee show ?thesis
      by (metis progress.disc(7))
  qed
qed


text \<open>Whatever an iteration does, it does not return from the function, and it leaves the
  engine alone; when it does not proceed, a read has failed and the exception is pending.\<close>

lemma extract_element_any:
  assumes "\<not> pending s"
  shows "\<not> is_ReturnsNull (extract_element w i el s)
       \<and> analysis_batches (trace (state_of (extract_element w i el s)))
           = analysis_batches (trace s)
       \<and> (is_Undefined (extract_element w i el s) \<longrightarrow>
            pending (state_of (extract_element w i el s)) \<and> wellformed el \<and> \<not> reads_ok w el)"
proof (cases "wellformed el")
  case False
  with assms extract_element_malformed [OF False assms(1), of w i] show ?thesis by auto
next
  case True
  from True assms(1) obtain rect t where
    nc: "native_copy el = Some \<lparr>info_text = t, info_bbox = rect\<rparr>"
    and ee: "extract_element w i el s =
       copy_element w i rect t
         (at_line_93 i s)"
    by (rule extract_element_wellformed)
  show ?thesis
  proof (cases "fields_ok w \<and> stringChars w t")
    case ok: True
    then show ?thesis
      by (simp add: ee copy_element_reads_ok batch_of_def)
  next
    case False
    let ?s4 = "at_line_93 i s"
    have u: "is_Undefined (copy_element w i rect t ?s4)"
      and p: "pending (state_of (copy_element w i rect t ?s4))"
      and b: "analysis_batches (trace (state_of (copy_element w i rect t ?s4)))
               = analysis_batches (trace ?s4)"
      using copy_element_reads_fail [OF False, of i rect ?s4] by blast+
    from u have "\<not> is_ReturnsNull (copy_element w i rect t ?s4)"
      by (cases "copy_element w i rect t ?s4") simp_all
    moreover from False nc have "\<not> reads_ok w el"
      by (simp add: reads_ok_def)
    ultimately show ?thesis
      using p b True by (simp add: ee batch_of_def)
  qed
qed

text \<open>
  The reference to the text string of a copied element stays in the local frame.
\<close>

lemma text_ref_survives:
  assumes "wellformed el" "\<not> pending s" "extract_element w i el s = Proceeds s'"
  shows "TextRef i \<in> set (locals s')"
proof -
  from assms(1,2) obtain rect t where
    ee: "extract_element w i el s = copy_element w i rect t (at_line_93 i s)"
    by (rule extract_element_wellformed)
  show ?thesis
  proof (cases "fields_ok w \<and> stringChars w t")
    case True
    with assms(3) ee show ?thesis
      by (auto simp: copy_element_reads_ok at_line_93_def)
  next
    case False
    from copy_element_reads_fail(1) [OF False, of i rect "at_line_93 i s"] assms(3) ee
    show ?thesis by simp
  qed
qed

subsection \<open>The two loops\<close>

lemma owns_extract_element:
  assumes "owns s" "extract_element w i el s = Proceeds s'"
  shows "owns s'"
proof -
  from assms(1) have np: "\<not> pending s" by (simp add: owns_def)
  from extract_element_Proceeds [OF np assms(2)] assms(1) show ?thesis
    unfolding owns_def by (auto simp: less_Suc_eq)
qed

lemma batch_extract_element:
  assumes "owns s" "extract_element w i el s = Proceeds s'"
  shows "batch s' = batch s @ filter (\<lambda>r. r \<noteq> None) [native_copy el]"
proof -
  from assms(1) have np: "\<not> pending s" and lt: "\<forall>p \<in> set (textPointers s). p < allocs s"
    by (simp_all add: owns_def)
  from lt have old:
    "map ((heap s)(allocs s := v)) (textPointers s) = map (heap s) (textPointers s)" for v
    by (induction "textPointers s") auto
  from extract_element_Proceeds [OF np assms(2)] old show ?thesis
    by (simp add: batch_def wellformed_native_copy)
qed

lemma extract_loop_Proceeds:
  "owns s \<Longrightarrow> extract_loop w i els s = Proceeds s' \<Longrightarrow>
     owns s'
   \<and> batch s' = batch s @ filter (\<lambda>r. r \<noteq> None) (map native_copy els)
   \<and> deleted (trace s') = deleted (trace s)"
proof (induction els arbitrary: i s)
  case Nil
  then show ?case by simp
next
  case (Cons el els)
  from Cons.prems(2) obtain s1 where
    e: "extract_element w i el s = Proceeds s1" and l: "extract_loop w (Suc i) els s1 = Proceeds s'"
    by (auto simp: and_then_Proceeds)
  from Cons.prems(1) have np: "\<not> pending s" by (simp add: owns_def)
  have o1: "owns s1" using Cons.prems(1) e by (rule owns_extract_element)
  from Cons.IH [OF o1 l] batch_extract_element [OF Cons.prems(1) e]
    extract_element_Proceeds [OF np e]
  show ?case by simp
qed

lemma extract_loop_any:
  "\<not> pending s \<Longrightarrow>
     \<not> is_ReturnsNull (extract_loop w i els s)
   \<and> analysis_batches (trace (state_of (extract_loop w i els s))) = analysis_batches (trace s)
   \<and> (is_Proceeds (extract_loop w i els s) \<longrightarrow> \<not> pending (state_of (extract_loop w i els s)))
   \<and> (is_Undefined (extract_loop w i els s) \<longrightarrow>
        pending (state_of (extract_loop w i els s)) \<and> \<not> (\<forall>e \<in> set els. reads_ok w e))"
proof (induction els arbitrary: i s)
  case Nil
  then show ?case by simp
next
  case (Cons el els)
  note any = extract_element_any [OF Cons.prems, of w i el]
  show ?case
  proof (cases "extract_element w i el s")
    case (Proceeds s1)
    from extract_element_Proceeds [OF Cons.prems Proceeds] have np1: "\<not> pending s1" by simp
    from Cons.IH [OF np1, of "Suc i"] any Proceeds show ?thesis by simp
  next
    case (ReturnsNull s1)
    with any show ?thesis by simp
  next
    case (Undefined s1)
    with any show ?thesis by simp
  qed
qed

lemma extract_loop_total:
  assumes "\<not> pending s" "\<forall>e \<in> set els. reads_ok w e"
  shows "is_Proceeds (extract_loop w i els s)"
  using extract_loop_any [OF assms(1), of w i els] assms(2)
  by (cases "extract_loop w i els s") simp_all

lemma delete_loop_heap:
  "heap (delete_loop ps s) = (\<lambda>p. if p \<in> set ps then None else heap s p)"
  by (induction ps arbitrary: s) (auto simp: delete_HiTextInfo_def emit_def)

lemma delete_loop_deleted:
  "deleted (trace (delete_loop ps s)) = deleted (trace s) @ ps"
  by (induction ps arbitrary: s) (simp_all add: delete_HiTextInfo_def emit_def deleted_of_def)

lemma delete_loop_created:
  "created (trace (delete_loop ps s)) = created (trace s)"
  by (induction ps arbitrary: s) (simp_all add: delete_HiTextInfo_def emit_def created_of_def)

lemma delete_loop_batches:
  "analysis_batches (trace (delete_loop ps s)) = analysis_batches (trace s)"
  by (induction ps arbitrary: s) (simp_all add: delete_HiTextInfo_def emit_def batch_of_def)

subsection \<open>The first phase of analyzeTextDataNative\<close>

lemma owns_loop_start: "owns loop_start"
  by (simp add: owns_def loop_start_def init_def created_of_def)

lemma loop_start_simps [simp]:
  "\<not> pending loop_start" "textPointers loop_start = []" "batch loop_start = []"
  "analysis_batches (trace loop_start) = []" "deleted (trace loop_start) = []"
  by (simp_all add: loop_start_def init_def batch_def batch_of_def deleted_of_def)

text \<open>The first phase either returns \<open>NULL\<close> before the loop or is the loop.\<close>

lemma analyze_marshal_cases:
  obtains (abort) s where "analyze_marshal w handle textInfoArray = ReturnsNull s"
      "heap s = (\<lambda>p. None)" "created (trace s) = []" "deleted (trace s) = []"
      "analysis_batches (trace s) = []"
      "handle = 0 \<or> textInfoArray = None \<or> \<not> lookups_ok w"
  | (loop) elems where "textInfoArray = Some elems" "handle \<noteq> 0" "lookups_ok w"
      "analyze_marshal w handle textInfoArray = extract_loop w 0 elems loop_start"
proof (cases "handle \<noteq> 0 \<and> textInfoArray \<noteq> None \<and> lookups_ok w")
  case True
  then obtain elems where "textInfoArray = Some elems" by auto
  moreover from True this
  have "analyze_marshal w handle textInfoArray = extract_loop w 0 elems loop_start"
    by (simp add: analyze_marshal_def lookups_ok_def lookup_defs Let_def loop_start_def init_def)
  ultimately show ?thesis using True by (auto intro: loop)
next
  case False
  then have "\<exists>s. analyze_marshal w handle textInfoArray = ReturnsNull s
      \<and> heap s = (\<lambda>p. None) \<and> created (trace s) = [] \<and> deleted (trace s) = []
      \<and> analysis_batches (trace s) = []"
    by (auto simp: analyze_marshal_def lookups_ok_def lookup_defs Let_def init_def
        created_of_def deleted_of_def batch_of_def split: option.splits)
  with False show ?thesis by (auto intro: abort)
qed

lemma analyze_marshal_ReturnsNull:
  assumes "analyze_marshal w handle textInfoArray = ReturnsNull s"
  shows "heap s = (\<lambda>p. None) \<and> created (trace s) = [] \<and> deleted (trace s) = []
       \<and> analysis_batches (trace s) = []
       \<and> (handle = 0 \<or> textInfoArray = None \<or> \<not> lookups_ok w)"
proof (rule analyze_marshal_cases [where w = w and handle = handle
          and textInfoArray = textInfoArray])
  fix s0
  assume "analyze_marshal w handle textInfoArray = ReturnsNull s0"
    "heap s0 = (\<lambda>p. None)" "created (trace s0) = []" "deleted (trace s0) = []"
    "analysis_batches (trace s0) = []"
    "handle = 0 \<or> textInfoArray = None \<or> \<not> lookups_ok w"
  with assms show ?thesis by simp
next
  fix elems
  assume "analyze_marshal w handle textInfoArray = extract_loop w 0 elems loop_start"
  with assms extract_loop_any [of loop_start w 0 elems] show ?thesis by simp
qed

lemma analyze_marshal_Undefined:
  assumes "analyze_marshal w handle textInfoArray = Undefined s"
  shows "pending s \<and> analysis_batches (trace s) = []
       \<and> (\<exists>elems. textInfoArray = Some elems \<and> \<not> (\<forall>e \<in> set elems. reads_ok w e))"
proof (rule analyze_marshal_cases [where w = w and handle = handle
          and textInfoArray = textInfoArray])
  fix s0
  assume "analyze_marshal w handle textInfoArray = ReturnsNull s0"
  with assms show ?thesis by simp
next
  fix elems
  assume arr: "textInfoArray = Some elems"
    and "analyze_marshal w handle textInfoArray = extract_loop w 0 elems loop_start"
  with assms have l: "extract_loop w 0 elems loop_start = Undefined s" by simp
  from extract_loop_any [of loop_start w 0 elems] show ?thesis
    by (simp add: l arr)
qed

lemma extraction_batch:
  assumes "analyze_marshal w handle (Some elems) = Proceeds s"
  shows "owns s" "batch s = filter (\<lambda>r. r \<noteq> None) (map native_copy elems)"
    "deleted (trace s) = []" "analysis_batches (trace s) = []"
proof -
  have l: "extract_loop w 0 elems loop_start = Proceeds s"
  proof (rule analyze_marshal_cases [where w = w and handle = handle
          and textInfoArray = "Some elems"])
    fix s0
    assume "analyze_marshal w handle (Some elems) = ReturnsNull s0"
    with assms show ?thesis by simp
  next
    fix elems'
    assume "Some elems = Some elems'"
      "analyze_marshal w handle (Some elems) = extract_loop w 0 elems' loop_start"
    with assms show ?thesis by simp
  qed
  from extract_loop_Proceeds [OF owns_loop_start l]
  show "owns s" "batch s = filter (\<lambda>r. r \<noteq> None) (map native_copy elems)"
    "deleted (trace s) = []"
    by simp_all
  from extract_loop_any [of loop_start w 0 elems] l
  show "analysis_batches (trace s) = []" by simp
qed

lemma analyze_marshal_Proceeds:
  assumes "analyze_marshal w handle textInfoArray = Proceeds s"
  obtains elems where "textInfoArray = Some elems" "handle \<noteq> 0" "lookups_ok w"
proof (rule analyze_marshal_cases [where w = w and handle = handle
          and textInfoArray = textInfoArray])
  fix s0
  assume "analyze_marshal w handle textInfoArray = ReturnsNull s0"
  with assms show ?thesis by simp
next
  fix elems
  assume "textInfoArray = Some elems" "handle \<noteq> 0" "lookups_ok w"
  then show ?thesis by (rule that)
qed

lemma analyze_marshal_reaches:
  assumes "handle \<noteq> 0" "lookups_ok w" "\<forall>e \<in> set elems. reads_ok w e"
  shows "is_Proceeds (analyze_marshal w handle (Some elems))"
proof (rule analyze_marshal_cases [where w = w and handle = handle
          and textInfoArray = "Some elems"])
  fix s0
  assume "handle = 0 \<or> Some elems = None \<or> \<not> lookups_ok w"
  with assms show ?thesis by simp
next
  fix elems'
  assume "Some elems = Some elems'"
    "analyze_marshal w handle (Some elems) = extract_loop w 0 elems' loop_start"
  with assms(3) show ?thesis by (simp add: extract_loop_total)
qed

text \<open>
  The return of lines 61-64 does not clear the exception that the failed \<open>GetMethodID\<close>
  has raised: the function returns \<open>NULL\<close> with the exception pending.
\<close>

lemma method_lookup_failure_leaves_exception:
  assumes "handle \<noteq> 0" "classFound w HiTextInfo_class" "classFound w HiRect_class"
    and "\<not> methodFound w HiTextInfo_class ''getBBox'' ''()Lcom/mwkg/hiocr/HiRect;''"
  shows "\<exists>s. analyze_marshal w handle (Some elems) = ReturnsNull s \<and> pending s"
  using assms by (simp add: analyze_marshal_def lookup_defs Let_def init_def)
section \<open>Properties of the bridge\<close>

subsection \<open>C1: release of the native copies\<close>

text \<open>
  C1, as the code has it: whenever \<open>analyzeTextDataNative\<close> returns (an early \<open>NULL\<close>,
  or the string of an engine call that returned), every \<open>HiTextInfo\<close> copy allocated
  during the call has been deleted: no copy is live, and the addresses deleted are the
  addresses created, in order.
\<close>

theorem copies_released_when_engine_returns:
  assumes "fst (analyzeTextDataNative w handle textInfoArray) = Returns r"
  shows "heap (snd (analyzeTextDataNative w handle textInfoArray)) = (\<lambda>p. None)
       \<and> deleted (trace (snd (analyzeTextDataNative w handle textInfoArray)))
           = created (trace (snd (analyzeTextDataNative w handle textInfoArray)))"
proof (cases "analyze_marshal w handle textInfoArray")
  case (ReturnsNull s)
  then show ?thesis
    using analyze_marshal_ReturnsNull [of w handle textInfoArray s]
    by (simp add: analyzeTextDataNative_def)
next
  case (Undefined s)
  with assms show ?thesis by (simp add: analyzeTextDataNative_def)
next
  case (Proceeds s)
  then obtain elems where "textInfoArray = Some elems"
    by (rule analyze_marshal_Proceeds)
  with Proceeds have o: "owns s" and d: "deleted (trace s) = []"
    by (simp_all add: extraction_batch)
  from assms Proceeds obtain result where
    res: "analyzeTextData w handle (batch s) = EngineReturns result"
    by (cases "analyzeTextData w handle (batch s)")
       (simp_all add: analyzeTextDataNative_def Let_def)
  have fin: "snd (analyzeTextDataNative w handle textInfoArray)
     = emit (EvNewStringUTF (c_str result))
         (delete_loop (textPointers s) (emit (EvAnalyzeTextData handle (batch s)) s))"
    using Proceeds res by (simp add: analyzeTextDataNative_def Let_def emit_def)
  have "heap (snd (analyzeTextDataNative w handle textInfoArray)) = (\<lambda>p. None)"
  proof
    fix p
    from o have "heap s p \<noteq> None \<longrightarrow> p \<in> set (textPointers s)"
      by (simp add: owns_def)
    then show "heap (snd (analyzeTextDataNative w handle textInfoArray)) p = None"
      by (auto simp: fin emit_def delete_loop_heap)
  qed
  moreover have "deleted (trace (snd (analyzeTextDataNative w handle textInfoArray)))
     = created (trace (snd (analyzeTextDataNative w handle textInfoArray)))"
    using o d
    by (simp add: fin emit_def delete_loop_deleted delete_loop_created owns_def
        deleted_of_def created_of_def)
  ultimately show ?thesis by simp
qed

text \<open>A batch of one good and one malformed element: one copy is made and deleted.\<close>

theorem copies_released_when_engine_returns_witness:
  "fst (analyzeTextDataNative world_ok 7 (Some [Some (elem_ok ''VISA''), Some elem_no_bbox]))
     = Returns (Some ''card'')
   \<and> heap (snd (analyzeTextDataNative world_ok 7
         (Some [Some (elem_ok ''VISA''), Some elem_no_bbox]))) = (\<lambda>p. None)
   \<and> deleted (trace (snd (analyzeTextDataNative world_ok 7
         (Some [Some (elem_ok ''VISA''), Some elem_no_bbox])))) = [0]
   \<and> created (trace (snd (analyzeTextDataNative world_ok 7
         (Some [Some (elem_ok ''VISA''), Some elem_no_bbox])))) = [0]"
proof -
  have h: "fst (analyzeTextDataNative world_ok 7
      (Some [Some (elem_ok ''VISA''), Some elem_no_bbox])) = Returns (Some ''card'')"
    by (simp add: eval_defs input_defs)
  have c: "created (trace (snd (analyzeTextDataNative world_ok 7
         (Some [Some (elem_ok ''VISA''), Some elem_no_bbox])))) = [0]"
    by (simp add: eval_defs input_defs created_of_def)
  show ?thesis
    using h c copies_released_when_engine_returns [OF h] by simp
qed

text \<open>
  When \<open>analyzeTextData\<close> throws, the exception leaves the function at line 111: the
  loop of lines 114-116 does not run and the copy made for the element stays allocated.
\<close>

theorem copies_leak_when_engine_throws:
  "fst (analyzeTextDataNative world_engine_throws 7 (Some [Some (elem_ok ''VISA'')]))
     = CppException
   \<and> heap (snd (analyzeTextDataNative world_engine_throws 7 (Some [Some (elem_ok ''VISA'')]))) 0
       = Some \<lparr>info_text = ''VISA'', info_bbox = box\<rparr>
   \<and> created (trace (snd (analyzeTextDataNative world_engine_throws 7
         (Some [Some (elem_ok ''VISA'')])))) = [0]
   \<and> deleted (trace (snd (analyzeTextDataNative world_engine_throws 7
         (Some [Some (elem_ok ''VISA'')])))) = []"
  by (simp add: eval_defs world_engine_throws_def world_ok_def elem_ok_def
      created_of_def deleted_of_def)

subsection \<open>C2: one malformed element\<close>



subsection \<open>C3: the zero handle\<close>

text \<open>
  C3: with handle 0, \<open>analyzeTextDataNative\<close> and \<open>decryptionDataNative\<close> print the
  diagnostic, return \<open>NULL\<close> and make no call into the engine.
\<close>

theorem zero_handle_refused:
  "analyzeTextDataNative w 0 textInfoArray = (Returns None, emit (EvCerr ''Handle is null'') init)
   \<and> decryptionDataNative w 0 input = (Returns None, emit (EvCerr ''Handle is null'') init)
   \<and> engine_calls (trace (snd (analyzeTextDataNative w 0 textInfoArray))) = []
   \<and> engine_calls (trace (snd (decryptionDataNative w 0 input))) = []"
  by (simp add: analyzeTextDataNative_def analyze_marshal_def decryptionDataNative_def
      emit_def init_def trace_defs)

theorem zero_handle_refused_witness:
  "analyzeTextDataNative world_ok 0 (Some [Some (elem_ok ''VISA'')])
     = (Returns None, emit (EvCerr ''Handle is null'') init)
   \<and> decryptionDataNative world_ok 0 (Some ''abc'')
     = (Returns None, emit (EvCerr ''Handle is null'') init)
   \<and> engine_calls (trace (snd (analyzeTextDataNative world_ok 0 (Some [Some (elem_ok ''VISA'')])))) = []
   \<and> engine_calls (trace (snd (decryptionDataNative world_ok 0 (Some ''abc'')))) = []"
  using zero_handle_refused [of world_ok "Some [Some (elem_ok ''VISA'')]" "Some ''abc''"]
  by blast

subsection \<open>C4: the null array\<close>

text \<open>
  C4: with a non-zero handle and a null array, \<open>analyzeTextDataNative\<close> prints the
  diagnostic and returns \<open>NULL\<close>; nothing of the extraction runs and the engine is not
  called.
\<close>

theorem null_array_refused:
  "handle \<noteq> 0 \<Longrightarrow>
     analyzeTextDataNative w handle None = (Returns None, emit (EvCerr ''Array is null'') init)
   \<and> extraction_events (trace (snd (analyzeTextDataNative w handle None))) = []
   \<and> engine_calls (trace (snd (analyzeTextDataNative w handle None))) = []"
  by (simp add: analyzeTextDataNative_def analyze_marshal_def emit_def init_def trace_defs)

theorem null_array_refused_witness:
  "(7::jlong) \<noteq> 0
   \<and> analyzeTextDataNative world_ok 7 None = (Returns None, emit (EvCerr ''Array is null'') init)
   \<and> extraction_events (trace (snd (analyzeTextDataNative world_ok 7 None))) = []
   \<and> engine_calls (trace (snd (analyzeTextDataNative world_ok 7 None))) = []"
proof -
  have h: "(7::jlong) \<noteq> 0" by simp
  show ?thesis using h null_array_refused [OF h, of world_ok] by blast
qed

subsection \<open>C5: a well-formed batch is passed whole\<close>

text \<open>
  C5: for a non-empty array of well-formed elements, every batch that reaches
  \<open>analyzeTextData\<close> has the length of the array; and with a non-zero handle, successful
  lookups and successful reads at lines 93-97, exactly one batch reaches it, the copies of
  all elements in order.
\<close>

theorem wellformed_batch_passed_whole:
  assumes "elems \<noteq> []" and "\<forall>e \<in> set elems. wellformed e"
  shows "(\<forall>b \<in> set (analysis_batches (trace (snd (analyzeTextDataNative w handle (Some elems))))).
            length b = length elems)
       \<and> (handle \<noteq> 0 \<and> lookups_ok w \<and> (\<forall>e \<in> set elems. reads_ok w e) \<longrightarrow>
            analysis_batches (trace (snd (analyzeTextDataNative w handle (Some elems))))
              = [map native_copy elems])"
proof (cases "analyze_marshal w handle (Some elems)")
  case (ReturnsNull s)
  then have "analysis_batches (trace (snd (analyzeTextDataNative w handle (Some elems)))) = []"
    using analyze_marshal_ReturnsNull [of w handle "Some elems" s]
    by (simp add: analyzeTextDataNative_def)
  moreover from ReturnsNull
  have "\<not> (handle \<noteq> 0 \<and> lookups_ok w \<and> (\<forall>e \<in> set elems. reads_ok w e))"
    using analyze_marshal_reaches [of handle w elems] by auto
  ultimately show ?thesis by simp
next
  case (Undefined s)
  then have "analysis_batches (trace (snd (analyzeTextDataNative w handle (Some elems)))) = []"
    using analyze_marshal_Undefined [of w handle "Some elems" s]
    by (simp add: analyzeTextDataNative_def)
  moreover from Undefined
  have "\<not> (handle \<noteq> 0 \<and> lookups_ok w \<and> (\<forall>e \<in> set elems. reads_ok w e))"
    using analyze_marshal_reaches [of handle w elems] by auto
  ultimately show ?thesis by simp
next
  case (Proceeds s)
  then have none: "analysis_batches (trace s) = []"
    by (rule extraction_batch)
  from assms(2) have keep:
    "filter (\<lambda>r. r \<noteq> None) (map native_copy elems) = map native_copy elems"
    by (induction elems) (auto simp: wellformed_native_copy)
  from extraction_batch(2) [OF Proceeds] keep have b: "batch s = map native_copy elems"
    by simp
  have "analysis_batches (trace (snd (analyzeTextDataNative w handle (Some elems)))) = [batch s]"
    using Proceeds none
    by (cases "analyzeTextData w handle (batch s)")
       (simp_all add: analyzeTextDataNative_def Let_def emit_def delete_loop_batches batch_of_def)
  with b show ?thesis by simp
qed

theorem wellformed_batch_passed_whole_witness:
  "[Some (elem_ok ''A''), Some (elem_ok ''B'')] \<noteq> []
   \<and> wellformed (Some (elem_ok ''A'')) \<and> wellformed (Some (elem_ok ''B''))
   \<and> (7::jlong) \<noteq> 0 \<and> lookups_ok world_ok
   \<and> reads_ok world_ok (Some (elem_ok ''A'')) \<and> reads_ok world_ok (Some (elem_ok ''B''))
   \<and> analysis_batches (trace (snd (analyzeTextDataNative world_ok 7
         (Some [Some (elem_ok ''A''), Some (elem_ok ''B'')]))))
       = [[Some \<lparr>info_text = ''A'', info_bbox = box\<rparr>, Some \<lparr>info_text = ''B'', info_bbox = box\<rparr>]]
   \<and> map length (analysis_batches (trace (snd (analyzeTextDataNative world_ok 7
         (Some [Some (elem_ok ''A''), Some (elem_ok ''B'')]))))) = [2]"
proof -
  have ne: "[Some (elem_ok ''A''), Some (elem_ok ''B'')] \<noteq> []" by simp
  have wf: "\<forall>e \<in> set [Some (elem_ok ''A''), Some (elem_ok ''B'')]. wellformed e"
    by (simp add: elem_ok_def)
  have h: "(7::jlong) \<noteq> 0" by simp
  have ok: "lookups_ok world_ok" by (simp add: lookups_ok_def world_ok_def)
  have rd: "\<forall>e \<in> set [Some (elem_ok ''A''), Some (elem_ok ''B'')]. reads_ok world_ok e"
    by (simp add: reads_ok_def fields_ok_def elem_ok_def world_ok_def)
  show ?thesis
    using ne wf h ok rd wellformed_batch_passed_whole [OF ne wf, of world_ok 7]
    by (simp add: elem_ok_def)
qed

subsection \<open>C6: Java exceptions raised during the extraction\<close>




subsection \<open>C7: local references of an element\<close>

text \<open>
  C7 asks that every local reference taken for an element be released before the next
  iteration.  Lines 105-106 delete the references to the element and to its rectangle, but
  no line deletes the reference \<open>text\<close> that \<open>CallObjectMethod\<close> returned at line 84.
  After the iteration for a well-formed element at index 0 that reference is still live,
  and after a call on two well-formed elements both text references are, beside the two
  class references; the trace has the deletions for the element and its rectangle only.
\<close>

theorem text_reference_outlives_element:
  "locals (state_of (extract_element world_ok 0 (Some (elem_ok ''A'')) init)) = [TextRef 0]
   \<and> locals (snd (analyzeTextDataNative world_ok 7
         (Some [Some (elem_ok ''A''), Some (elem_ok ''B'')])))
       = [ClassRef HiTextInfo_class, ClassRef HiRect_class, TextRef 0, TextRef 1]
   \<and> filter (\<lambda>e. e = EvDeleteLocalRef (TextRef 0) \<or> e = EvDeleteLocalRef (ElemRef 0)
                \<or> e = EvDeleteLocalRef (BBoxRef 0))
        (trace (snd (analyzeTextDataNative world_ok 7
           (Some [Some (elem_ok ''A''), Some (elem_ok ''B'')]))))
       = [EvDeleteLocalRef (ElemRef 0), EvDeleteLocalRef (BBoxRef 0)]"
  by (simp add: eval_defs world_ok_def elem_ok_def)

subsection \<open>C8: destroyNativeAnalyzer\<close>

text \<open>
  C8: with handle 0, \<open>destroyNativeAnalyzer\<close> prints the diagnostic and deletes no
  engine; with any other handle it deletes the engine at that address.
\<close>

theorem destroy_zero_or_release:
  "trace (destroyNativeAnalyzer 0) = [EvCerr ''Handle is null'']
   \<and> engine_releases (trace (destroyNativeAnalyzer 0)) = []
   \<and> (handle \<noteq> 0 \<longrightarrow> trace (destroyNativeAnalyzer handle) = [EvDeleteAnalyzer handle])"
  by (simp add: destroyNativeAnalyzer_def emit_def init_def trace_defs)

theorem destroy_zero_or_release_witness:
  "trace (destroyNativeAnalyzer 0 :: real state) = [EvCerr ''Handle is null'']
   \<and> engine_releases (trace (destroyNativeAnalyzer 0 :: real state)) = []
   \<and> (4096::jlong) \<noteq> 0
   \<and> trace (destroyNativeAnalyzer 4096 :: real state) = [EvDeleteAnalyzer 4096]"
  using destroy_zero_or_release [of 4096, where ?'a = real] by simp

subsection \<open>C9: createNativeAnalyzer\<close>




subsection \<open>C10: failed lookups\<close>

text \<open>
  C10: when one of the two \<open>FindClass\<close> or the two \<open>GetMethodID\<close> lookups fails,
  \<open>analyzeTextDataNative\<close> returns \<open>NULL\<close>, and its trace has no event of the
  extraction (no array access, no accessor call, no allocation) and no engine call.
\<close>

theorem lookup_failure_aborts:
  "\<not> lookups_ok w \<Longrightarrow>
     fst (analyzeTextDataNative w handle textInfoArray) = Returns None
   \<and> extraction_events (trace (snd (analyzeTextDataNative w handle textInfoArray))) = []
   \<and> engine_calls (trace (snd (analyzeTextDataNative w handle textInfoArray))) = []"
  by (auto simp: analyzeTextDataNative_def analyze_marshal_def lookups_ok_def lookup_defs
      init_def trace_defs Let_def split: option.splits)

theorem lookup_failure_aborts_witness:
  "\<not> lookups_ok world_no_rect_class
   \<and> fst (analyzeTextDataNative world_no_rect_class 7 (Some [Some (elem_ok ''VISA'')]))
       = Returns None
   \<and> extraction_events (trace (snd (analyzeTextDataNative world_no_rect_class 7
         (Some [Some (elem_ok ''VISA'')])))) = []
   \<and> engine_calls (trace (snd (analyzeTextDataNative world_no_rect_class 7
         (Some [Some (elem_ok ''VISA'')])))) = []"
proof -
  have h: "\<not> lookups_ok world_no_rect_class"
    by (simp add: lookups_ok_def world_no_rect_class_def world_ok_def HiTextInfo_class_def
        HiRect_class_def)
  show ?thesis
    using h lookup_failure_aborts [OF h, of 7 "Some [Some (elem_ok ''VISA'')]"] by blast
qed

end
